theory Spec2Isabelle
  imports Main
begin

section \<open>JSON values and book records\<close>

text \<open>
  The routes of \<^verbatim>\<open>routes/books.js\<close> handle plain JSON data. The type parameter
  \<open>'n\<close> stands for JavaScript numbers, which no route ever inspects. An object
  is the map from its own property names to their values: \<open>obj k = None\<close> reads as
  \<^verbatim>\<open>obj[k] === undefined\<close>. A request body is \<^verbatim>\<open>req.body\<close> as
  \<^verbatim>\<open>express.json()\<close> leaves it: an object (an array acts as the object of its
  indices, a request without body gives the empty object). Every record of the
  collection is an object: the routes store nothing else.
\<close>

datatype 'n json =
    JNull
  | JBool bool
  | JNumber 'n
  | JString string
  | JArray "'n json list"
  | JObject "string \<Rightarrow> 'n json option"

type_synonym 'n object = "string \<Rightarrow> 'n json option"

type_synonym 'n book = "'n object"

text \<open>\<^verbatim>\<open>const idLength = 5;\<close>\<close>

definition idLength :: nat where
  "idLength = 5"

text \<open>
  \<^verbatim>\<open>_.assign(object, source)\<close> of lodash writes every own property of \<open>source\<close>
  onto \<open>object\<close> and leaves the other properties of \<open>object\<close> alone. The object
  literal \<^verbatim>\<open>{ id: nanoid(idLength), ...req.body }\<close> does the same to a fresh object
  that holds \<open>id\<close> only.
\<close>

definition assign :: "'n object \<Rightarrow> 'n object \<Rightarrow> 'n object" where
  "assign object source = object ++ source"

text \<open>
  The predicate of \<^verbatim>\<open>find({ id: req.params.id })\<close> and
  \<^verbatim>\<open>remove({ id: req.params.id })\<close>: lodash compares the property with
  \<^verbatim>\<open>===\<close>, and a path parameter is always a string, so a record matches when its
  \<open>id\<close> is that very string.
\<close>

definition matches_id :: "string \<Rightarrow> 'n book \<Rightarrow> bool" where
  "matches_id pid b \<longleftrightarrow> b ''id'' = Some (JString pid)"

section \<open>The lodash collection operations used by the routes\<close>

text \<open>Position of the first element the predicate accepts.\<close>

fun find_index :: "('a \<Rightarrow> bool) \<Rightarrow> 'a list \<Rightarrow> nat option" where
  "find_index p [] = None"
| "find_index p (x # xs) = (if p x then Some 0 else map_option Suc (find_index p xs))"

text \<open>\<^verbatim>\<open>_.find\<close>: the first matching element, \<open>None\<close> for \<^verbatim>\<open>undefined\<close>.\<close>

definition lodash_find :: "('a \<Rightarrow> bool) \<Rightarrow> 'a list \<Rightarrow> 'a option" where
  "lodash_find p xs = (case find_index p xs of None \<Rightarrow> None | Some i \<Rightarrow> Some (xs ! i))"

text \<open>
  \<^verbatim>\<open>.find(...).assign(source)\<close>: the found element is an object of the array, and
  \<open>assign\<close> mutates it where it stands.
\<close>

definition assign_found :: "('n book \<Rightarrow> bool) \<Rightarrow> 'n object \<Rightarrow> 'n book list \<Rightarrow> 'n book list" where
  "assign_found p source xs =
     (case find_index p xs of
        None \<Rightarrow> xs
      | Some i \<Rightarrow> xs[i := assign (xs ! i) source])"

text \<open>
  \<^verbatim>\<open>_.remove\<close>: takes every matching element out of the array and returns the
  removed elements; the pair is (removed, remaining array), both in array order.
\<close>

fun lodash_remove :: "('a \<Rightarrow> bool) \<Rightarrow> 'a list \<Rightarrow> 'a list \<times> 'a list" where
  "lodash_remove p [] = ([], [])"
| "lodash_remove p (x # xs) =
     (case lodash_remove p xs of
        (removed, kept) \<Rightarrow> if p x then (x # removed, kept) else (removed, x # kept))"

section \<open>The store\<close>

text \<open>
  lowdb keeps the whole database in memory (\<open>books\<close>, the array under the key
  \<^verbatim>\<open>"books"\<close>); reads are served from there. \<open>db_json\<close> is the array last written
  to \<^verbatim>\<open>db.json\<close>.
\<close>

record 'n db =
  books :: "'n book list"
  db_json :: "'n book list"

text \<open>
  A thrown JavaScript error, by what the program's answers depend on: its
  \<^verbatim>\<open>message\<close> (not enumerable), its \<^verbatim>\<open>status\<close> when that is a number (the
  errors of \<^verbatim>\<open>express.json()\<close> carry 400, an error of the file system or a plain
  \<^verbatim>\<open>Error\<close> carries none), and its own enumerable properties, which are all that
  \<^verbatim>\<open>JSON.stringify\<close> keeps of it.
\<close>

datatype 'n error =
  Error (message: string) (http_status: "nat option") (own_props: "string \<Rightarrow> 'n json option")

text \<open>
  Modelled from the spec: the file-write primitive behind \<^verbatim>\<open>.write()\<close> (the
  FileSync adapter of lowdb, outside this repository). It overwrites the whole file
  with the in-memory state, or it throws and "a failed write leaves the file in its
  prior state". The first argument is what the file system does on this call:
  \<open>None\<close> when the write goes through, \<open>Some e\<close> when it throws \<open>e\<close>.
\<close>

definition db_write :: "'n error option \<Rightarrow> 'n db \<Rightarrow> 'n db \<times> 'n error option" where
  "db_write outcome st =
     (case outcome of
        None \<Rightarrow> (st\<lparr>db_json := books st\<rparr>, None)
      | Some e \<Rightarrow> (st, Some e))"

text \<open>
  \<^verbatim>\<open>db.defaults({ books: [] }).write()\<close> in \<^verbatim>\<open>index.js\<close>: the argument is the
  array found in \<^verbatim>\<open>db.json\<close> at startup, if any.
\<close>

definition startup :: "'n book list option \<Rightarrow> 'n db" where
  "startup found =
     (case found of
        None \<Rightarrow> \<lparr>books = [], db_json = []\<rparr>
      | Some bs \<Rightarrow> \<lparr>books = bs, db_json = bs\<rparr>)"

section \<open>Responses\<close>

datatype 'n payload =
    Book "'n book"
  | Books "'n book list"
  | Undefined
  | Failure "'n error"

text \<open>
  \<open>SendStatus c\<close> is \<^verbatim>\<open>res.sendStatus(c)\<close>, \<open>Send c p\<close> is
  \<^verbatim>\<open>res.status(c).send(p)\<close> (\<^verbatim>\<open>res.send(p)\<close> has status 200), and \<open>Uncaught e\<close>
  is an error that no handler catches, which Express answers itself. Its status is
  then the error's \<^verbatim>\<open>status\<close> when that is a 4xx or 5xx code, and 500 otherwise.
\<close>

datatype 'n response =
    SendStatus nat
  | Send nat "'n payload"
  | Uncaught "'n error"

fun status :: "'n response \<Rightarrow> nat" where
  "status (SendStatus c) = c"
| "status (Send c p) = c"
| "status (Uncaught e) =
     (case http_status e of
        None \<Rightarrow> 500
      | Some c \<Rightarrow> if 400 \<le> c \<and> c < 600 then c else 500)"

text \<open>
  The body that goes out with a response. \<^verbatim>\<open>res.sendStatus(c)\<close> sends the reason
  phrase of \<open>c\<close> as text: \<open>statuses_message\<close> holds the phrases of the two codes the
  routes pass to it, and \<open>PhraseOf c\<close> stands for the phrase of any other code.
  \<^verbatim>\<open>res.send\<close> sends an object or array as its JSON text (of an error, its own
  enumerable properties) and nothing for \<^verbatim>\<open>undefined\<close>. An uncaught error is
  answered with an error page.
\<close>

datatype 'n wire =
    Text string
  | Json "'n json"
  | NoBody
  | PhraseOf nat
  | ErrorPage "'n error"

definition statuses_message :: "nat \<Rightarrow> string option" where
  "statuses_message c =
     (if c = 200 then Some ''OK'' else if c = 404 then Some ''Not Found'' else None)"

fun content :: "'n response \<Rightarrow> 'n wire" where
  "content (SendStatus c) =
     (case statuses_message c of None \<Rightarrow> PhraseOf c | Some phrase \<Rightarrow> Text phrase)"
| "content (Send c (Book b)) = Json (JObject b)"
| "content (Send c (Books bs)) = Json (JArray (map JObject bs))"
| "content (Send c Undefined) = NoBody"
| "content (Send c (Failure e)) = Json (JObject (own_props e))"
| "content (Uncaught e) = ErrorPage e"

text \<open>What \<^verbatim>\<open>res.send(book.value())\<close> is given.\<close>

definition value_payload :: "'n book option \<Rightarrow> 'n payload" where
  "value_payload v = (case v of None \<Rightarrow> Undefined | Some b \<Rightarrow> Book b)"

section \<open>The route handlers\<close>

text \<open>\<^verbatim>\<open>router.get("/")\<close>\<close>

definition get_books :: "'n db \<Rightarrow> 'n db \<times> 'n response" where
  "get_books st = (st, Send 200 (Books (books st)))"

text \<open>\<^verbatim>\<open>router.get("/:id")\<close>\<close>

definition get_book :: "'n db \<Rightarrow> string \<Rightarrow> 'n db \<times> 'n response" where
  "get_book st pid =
     (case lodash_find (matches_id pid) (books st) of
        None \<Rightarrow> (st, SendStatus 404)
      | Some book \<Rightarrow> (st, Send 200 (Book book)))"

text \<open>
  \<^verbatim>\<open>router.post("/")\<close>. \<open>gen\<close> is what \<^verbatim>\<open>nanoid(idLength)\<close> does on this call
  (it returns a string or throws), \<open>wr\<close> what the file system does.
  \<open>new_book\<close> is the literal \<^verbatim>\<open>{ id: nanoid(idLength), ...req.body }\<close>: the
  body's properties are spread after \<open>id\<close>. Everything runs inside the \<^verbatim>\<open>try\<close>.
\<close>

definition new_book :: "string \<Rightarrow> 'n object \<Rightarrow> 'n book" where
  "new_book gid body = assign [''id'' \<mapsto> JString gid] body"

definition post_book ::
  "'n db \<Rightarrow> 'n error + string \<Rightarrow> 'n error option \<Rightarrow> 'n object \<Rightarrow> 'n db \<times> 'n response" where
  "post_book st gen wr body =
     (case gen of
        Inl e \<Rightarrow> (st, Send 500 (Failure e))
      | Inr gid \<Rightarrow>
          (let book = new_book gid body;
               pushed = st\<lparr>books := books st @ [book]\<rparr>
           in case db_write wr pushed of
                (st', Some e) \<Rightarrow> (st', Send 500 (Failure e))
              | (st', None) \<Rightarrow> (st', Send 201 (Book book))))"

text \<open>
  \<^verbatim>\<open>router.put("/:id")\<close>. \<open>book\<close> is a lazy lodash chain, so each of
  \<^verbatim>\<open>book.value()\<close>, \<^verbatim>\<open>book.assign(req.body).write()\<close> and the final
  \<^verbatim>\<open>book.value()\<close> runs the \<open>find\<close> again on the array as it is then.
\<close>

definition put_book ::
  "'n db \<Rightarrow> string \<Rightarrow> 'n error option \<Rightarrow> 'n object \<Rightarrow> 'n db \<times> 'n response" where
  "put_book st pid wr body =
     (case lodash_find (matches_id pid) (books st) of
        None \<Rightarrow> (st, SendStatus 404)
      | Some found \<Rightarrow>
          (let assigned = st\<lparr>books := assign_found (matches_id pid) body (books st)\<rparr>
           in case db_write wr assigned of
                (st', Some e) \<Rightarrow> (st', Send 500 (Failure e))
              | (st', None) \<Rightarrow>
                  (st', Send 200 (value_payload (lodash_find (matches_id pid) (books st'))))))"

text \<open>
  \<^verbatim>\<open>router.delete("/:id")\<close>. There is no \<^verbatim>\<open>try\<close> here, and the write comes
  before the test of \<^verbatim>\<open>book.length\<close>.
\<close>

definition delete_book ::
  "'n db \<Rightarrow> string \<Rightarrow> 'n error option \<Rightarrow> 'n db \<times> 'n response" where
  "delete_book st pid wr =
     (case lodash_remove (matches_id pid) (books st) of
        (removed, kept) \<Rightarrow>
          (case db_write wr (st\<lparr>books := kept\<rparr>) of
             (st', Some e) \<Rightarrow> (st', Uncaught e)
           | (st', None) \<Rightarrow>
               (st', if length removed = 0 then SendStatus 404 else SendStatus 200)))"

section \<open>The middleware in front of the routes\<close>

text \<open>
  \<^verbatim>\<open>index.js\<close> installs \<^verbatim>\<open>express.json()\<close> before \<^verbatim>\<open>app.use("/books", booksRouter)\<close>.
  The first argument is what the parser does with the request: it hands the parsed
  body on (\<open>Inr body\<close>, the handler's \<^verbatim>\<open>req.body\<close>), or it fails with an error
  (\<open>Inl e\<close>). In that case no route runs, so no \<^verbatim>\<open>try\<close> of a handler sees the
  error: Express answers it.
\<close>

definition express_json ::
  "'n error + 'n object \<Rightarrow> 'n db \<Rightarrow> ('n object \<Rightarrow> 'n db \<times> 'n response) \<Rightarrow> 'n db \<times> 'n response" where
  "express_json parsed st route =
     (case parsed of
        Inl e \<Rightarrow> (st, Uncaught e)
      | Inr body \<Rightarrow> route body)"

text \<open>\<^verbatim>\<open>POST /books\<close> and \<^verbatim>\<open>PUT /books/{id}\<close> as the application serves them.\<close>

definition app_post ::
  "'n db \<Rightarrow> 'n error + 'n object \<Rightarrow> 'n error + string \<Rightarrow> 'n error option \<Rightarrow> 'n db \<times> 'n response" where
  "app_post st parsed gen wr = express_json parsed st (post_book st gen wr)"

definition app_put ::
  "'n db \<Rightarrow> string \<Rightarrow> 'n error + 'n object \<Rightarrow> 'n error option \<Rightarrow> 'n db \<times> 'n response" where
  "app_put st pid parsed wr = express_json parsed st (put_book st pid wr)"

section \<open>Example stores\<close>

text \<open>
  Stores reached from a first startup (no \<^verbatim>\<open>db.json\<close>) by successful requests:
  one book created without an \<open>id\<close> in the body, two books created with the same
  \<open>id\<close> in the body, and one book created with an empty \<open>id\<close> in the body.
\<close>

definition db_one :: "int db" where
  "db_one = fst (post_book (startup None) (Inr ''abcde'') None
                   [''title'' \<mapsto> JString ''Dune'', ''author'' \<mapsto> JString ''Herbert''])"

definition db_dup :: "int db" where
  "db_dup = fst (post_book
                  (fst (post_book (startup None) (Inr ''abcde'') None [''id'' \<mapsto> JString ''a'']))
                  (Inr ''fghij'') None [''id'' \<mapsto> JString ''a''])"

definition db_blank :: "int db" where
  "db_blank = fst (post_book (startup None) (Inr ''abcde'') None [''id'' \<mapsto> JString ''''])"

text \<open>
  Errors as the libraries raise them: the file system refusing to open
  \<^verbatim>\<open>db.json\<close>, an \<^verbatim>\<open>Error\<close> with nothing but its message, and the error of
  \<^verbatim>\<open>express.json()\<close> for a request body that is not JSON.
\<close>

definition eacces :: "int error" where
  "eacces = Error ''EACCES: permission denied'' None
      [''errno'' \<mapsto> JNumber (- 13), ''code'' \<mapsto> JString ''EACCES'',
       ''syscall'' \<mapsto> JString ''open'', ''path'' \<mapsto> JString ''db.json'']"

definition plain_error :: "int error" where
  "plain_error = Error ''out of entropy'' None Map.empty"

definition parse_failed :: "int error" where
  "parse_failed = Error ''Unexpected end of JSON input'' (Some 400)
      [''expose'' \<mapsto> JBool True, ''statusCode'' \<mapsto> JNumber 400, ''status'' \<mapsto> JNumber 400,
       ''body'' \<mapsto> JString ''{'', ''type'' \<mapsto> JString ''entity.parse.failed'']"

section \<open>Facts about the collection operations\<close>

lemma find_index_None: "find_index p xs = None \<longleftrightarrow> (\<forall>x\<in>set xs. \<not> p x)"
  by (induction xs) auto

lemma find_index_Some:
  "find_index p xs = Some i \<Longrightarrow> i < length xs \<and> p (xs ! i) \<and> (\<forall>j<i. \<not> p (xs ! j))"
proof (induction xs arbitrary: i)
  case Nil
  then show ?case by simp
next
  case (Cons x xs)
  show ?case
  proof (cases "p x")
    case True
    with Cons.prems show ?thesis by simp
  next
    case False
    with Cons.prems obtain k where k: "find_index p xs = Some k" "i = Suc k"
      by auto
    from Cons.IH [OF k(1)] False k(2) show ?thesis
      by (auto simp: less_Suc_eq_0_disj)
  qed
qed

lemma find_index_update:
  "find_index p xs = Some i \<Longrightarrow> p y \<Longrightarrow> find_index p (xs[i := y]) = Some i"
proof (induction xs arbitrary: i)
  case Nil
  then show ?case by simp
next
  case (Cons x xs)
  show ?case
  proof (cases "p x")
    case True
    with Cons.prems show ?thesis by simp
  next
    case False
    with Cons.prems obtain k where k: "find_index p xs = Some k" "i = Suc k"
      by auto
    from Cons.IH [OF k(1) Cons.prems(2)] False k(2) show ?thesis
      by simp
  qed
qed

lemma lodash_find_None: "lodash_find p xs = None \<longleftrightarrow> (\<forall>x\<in>set xs. \<not> p x)"
proof -
  have "lodash_find p xs = None \<longleftrightarrow> find_index p xs = None"
    by (simp add: lodash_find_def split: option.splits)
  then show ?thesis by (simp add: find_index_None)
qed

lemma lodash_find_Some: "lodash_find p xs = Some x \<Longrightarrow> x \<in> set xs \<and> p x"
  by (auto simp: lodash_find_def split: option.splits dest: find_index_Some)

lemma lodash_remove_filter:
  "lodash_remove p xs = (filter p xs, filter (\<lambda>x. \<not> p x) xs)"
  by (induction xs) auto

lemma assign_apply:
  "assign object source k = (case source k of None \<Rightarrow> object k | Some v \<Rightarrow> Some v)"
  by (simp add: assign_def map_add_def)

lemma filter_distinct_key:
  "distinct (map f xs) \<Longrightarrow> length (filter (\<lambda>x. f x = c) xs) \<le> 1"
proof (induction xs)
  case Nil
  then show ?case by simp
next
  case (Cons x xs)
  show ?case
  proof (cases "f x = c")
    case True
    from Cons.prems True have notin: "c \<notin> f ` set xs" by simp
    have "\<forall>y\<in>set xs. f y \<noteq> c"
    proof
      fix y assume "y \<in> set xs"
      then have "f y \<in> f ` set xs" by (rule imageI)
      with notin show "f y \<noteq> c" by auto
    qed
    then have "filter (\<lambda>x. f x = c) xs = []" by (simp add: filter_empty_conv)
    with True show ?thesis by simp
  next
    case False
    with Cons show ?thesis by simp
  qed
qed

section \<open>The handlers, case by case\<close>

lemma put_book_found:
  assumes "find_index (matches_id pid) (books st) = Some i"
  shows "put_book st pid None body =
           (st\<lparr>books := (books st)[i := assign (books st ! i) body],
               db_json := (books st)[i := assign (books st ! i) body]\<rparr>,
            Send 200 (value_payload
              (lodash_find (matches_id pid) ((books st)[i := assign (books st ! i) body]))))"
    and "put_book st pid (Some e) body =
           (st\<lparr>books := (books st)[i := assign (books st ! i) body]\<rparr>, Send 500 (Failure e))"
  using assms
  by (simp_all add: put_book_def lodash_find_def assign_found_def db_write_def Let_def
      cong: option.case_cong)

lemma post_book_generated:
  "post_book st (Inr gid) None body =
     (st\<lparr>books := books st @ [new_book gid body], db_json := books st @ [new_book gid body]\<rparr>,
      Send 201 (Book (new_book gid body)))"
  "post_book st (Inr gid) (Some e) body =
     (st\<lparr>books := books st @ [new_book gid body]\<rparr>, Send 500 (Failure e))"
  by (simp_all add: post_book_def db_write_def Let_def)

lemma delete_book_written:
  "delete_book st pid None =
     (st\<lparr>books := filter (\<lambda>b. \<not> matches_id pid b) (books st),
         db_json := filter (\<lambda>b. \<not> matches_id pid b) (books st)\<rparr>,
      if filter (matches_id pid) (books st) = [] then SendStatus 404 else SendStatus 200)"
  "delete_book st pid (Some e) =
     (st\<lparr>books := filter (\<lambda>b. \<not> matches_id pid b) (books st)\<rparr>, Uncaught e)"
  by (simp_all add: delete_book_def lodash_remove_filter db_write_def)

lemmas eval_defs = get_books_def get_book_def post_book_def put_book_def delete_book_def
  db_write_def startup_def lodash_find_def assign_found_def matches_id_def assign_def
  new_book_def value_payload_def Let_def

lemma db_one_books:
  "books db_one = [[''id'' \<mapsto> JString ''abcde'', ''title'' \<mapsto> JString ''Dune'',
                    ''author'' \<mapsto> JString ''Herbert'']]"
  by (simp add: db_one_def eval_defs)

lemma db_dup_books:
  "books db_dup = [[''id'' \<mapsto> JString ''a''], [''id'' \<mapsto> JString ''a'']]"
  by (simp add: db_dup_def eval_defs)

lemma db_blank_books:
  "books db_blank = [[''id'' \<mapsto> JString '''']]"
  by (simp add: db_blank_def eval_defs)

section \<open>Reading one book\<close>

text \<open>
  C4. For every id, \<^verbatim>\<open>GET /books/{id}\<close> answers 200 with a matching book exactly
  when some record of the collection has that id, and 404 exactly when none has; the
  store is the same afterwards.
\<close>

theorem get_book_found_iff:
  "fst (get_book st pid) = st \<and>
   (status (snd (get_book st pid)) = 200 \<longleftrightarrow> (\<exists>b\<in>set (books st). matches_id pid b)) \<and>
   (status (snd (get_book st pid)) = 404 \<longleftrightarrow> \<not> (\<exists>b\<in>set (books st). matches_id pid b)) \<and>
   (status (snd (get_book st pid)) = 200 \<longrightarrow>
      (\<exists>b\<in>set (books st). matches_id pid b \<and> snd (get_book st pid) = Send 200 (Book b)))"
proof (cases "lodash_find (matches_id pid) (books st)")
  case None
  then have "\<forall>b\<in>set (books st). \<not> matches_id pid b"
    by (simp add: lodash_find_None)
  with None show ?thesis
    by (simp add: get_book_def)
next
  case (Some b)
  then have "b \<in> set (books st) \<and> matches_id pid b"
    by (rule lodash_find_Some)
  with Some show ?thesis
    by (auto simp: get_book_def)
qed

theorem get_book_found_iff_witness:
  "(\<exists>b\<in>set (books db_one). matches_id ''abcde'' b) \<and>
   status (snd (get_book db_one ''abcde'')) = 200 \<and>
   fst (get_book db_one ''abcde'') = db_one \<and>
   \<not> (\<exists>b\<in>set (books db_one). matches_id ''zzzzz'' b) \<and>
   status (snd (get_book db_one ''zzzzz'')) = 404"
  using get_book_found_iff [of db_one "''abcde''"] get_book_found_iff [of db_one "''zzzzz''"]
  by (simp add: db_one_books matches_id_def)

section \<open>Updating a book\<close>

text \<open>
  C1, as the claim states it, at a concrete request: the store holds one book with id
  \<open>abcde\<close>, and \<^verbatim>\<open>PUT /books/abcde\<close> with the body \<^verbatim>\<open>{"id": "zzzzz"}\<close> answers
  200 and leaves the stored record with id \<open>zzzzz\<close>.
\<close>

theorem put_book_id_counterexample:
  "(books db_one ! 0) ''id'' = Some (JString ''abcde'') \<and>
   status (snd (put_book db_one ''abcde'' None [''id'' \<mapsto> JString ''zzzzz''])) = 200 \<and>
   (books (fst (put_book db_one ''abcde'' None [''id'' \<mapsto> JString ''zzzzz''])) ! 0) ''id''
     = Some (JString ''zzzzz'')"
  by (simp add: db_one_books eval_defs)

text \<open>
  C1, amended. For every existing record (the first one whose id is the path id, at
  position \<open>i\<close>) and every body, a \<^verbatim>\<open>PUT /books/{id}\<close> whose write succeeds answers
  200; the stored record keeps the path id when the body has no \<open>id\<close> property, and
  takes the body's \<open>id\<close> when it has one.
\<close>

theorem put_book_id:
  assumes "find_index (matches_id pid) (books st) = Some i"
  shows "status (snd (put_book st pid None body)) = 200 \<and>
         (books st ! i) ''id'' = Some (JString pid) \<and>
         (books (fst (put_book st pid None body)) ! i) ''id'' =
           (case body ''id'' of None \<Rightarrow> Some (JString pid) | Some v \<Rightarrow> Some v)"
proof -
  from find_index_Some [OF assms]
  have i: "i < length (books st)" and old: "(books st ! i) ''id'' = Some (JString pid)"
    by (simp_all add: matches_id_def)
  have "books (fst (put_book st pid None body)) ! i = assign (books st ! i) body"
    using i by (simp add: put_book_found(1) [OF assms])
  then have "(books (fst (put_book st pid None body)) ! i) ''id'' =
      (case body ''id'' of None \<Rightarrow> Some (JString pid) | Some v \<Rightarrow> Some v)"
    by (simp add: assign_apply old split: option.split)
  moreover have "status (snd (put_book st pid None body)) = 200"
    by (simp add: put_book_found(1) [OF assms])
  ultimately show ?thesis
    using old by simp
qed

theorem put_book_id_witness:
  "find_index (matches_id ''abcde'') (books db_one) = Some 0 \<and>
   status (snd (put_book db_one ''abcde'' None [''title'' \<mapsto> JString ''Dune Messiah''])) = 200 \<and>
   (books (fst (put_book db_one ''abcde'' None [''title'' \<mapsto> JString ''Dune Messiah''])) ! 0) ''id''
     = Some (JString ''abcde'')"
proof -
  have found: "find_index (matches_id ''abcde'') (books db_one) = Some 0"
    by (simp add: db_one_books matches_id_def)
  from put_book_id [OF found, of "[''title'' \<mapsto> JString ''Dune Messiah'']"] found
  show ?thesis by simp
qed

text \<open>
  C3. For every existing record, \<^verbatim>\<open>PUT /books/{id}\<close> is a shallow merge: the record
  is replaced where it stands by one in which every property of the body has the
  body's value and every other property has its old value, and all other records stay
  as they are. A body \<^verbatim>\<open>{author: x}\<close> changes \<open>author\<close> only, leaving \<open>title\<close> and
  \<open>id\<close>. When the body has no \<open>id\<close> and the write succeeds, the answer is 200 with
  the merged record.
\<close>

theorem put_book_shallow_merge:
  assumes "find_index (matches_id pid) (books st) = Some i"
  shows "books (fst (put_book st pid wr body)) = (books st)[i := assign (books st ! i) body] \<and>
         (\<forall>k. assign (books st ! i) body k =
                (case body k of None \<Rightarrow> (books st ! i) k | Some v \<Rightarrow> Some v)) \<and>
         (\<forall>x. body = [''author'' \<mapsto> x] \<longrightarrow>
                assign (books st ! i) body ''author'' = Some x \<and>
                assign (books st ! i) body ''title'' = (books st ! i) ''title'' \<and>
                assign (books st ! i) body ''id'' = (books st ! i) ''id'') \<and>
         (body ''id'' = None \<longrightarrow>
            snd (put_book st pid None body) = Send 200 (Book (assign (books st ! i) body)))"
proof -
  from find_index_Some [OF assms]
  have i: "i < length (books st)" and old: "matches_id pid (books st ! i)"
    by simp_all
  have stored: "books (fst (put_book st pid wr body)) = (books st)[i := assign (books st ! i) body]"
    by (cases wr) (simp_all add: put_book_found [OF assms])
  have merged: "\<forall>k. assign (books st ! i) body k =
      (case body k of None \<Rightarrow> (books st ! i) k | Some v \<Rightarrow> Some v)"
    by (simp add: assign_apply)
  have author: "\<forall>x. body = [''author'' \<mapsto> x] \<longrightarrow>
      assign (books st ! i) body ''author'' = Some x \<and>
      assign (books st ! i) body ''title'' = (books st ! i) ''title'' \<and>
      assign (books st ! i) body ''id'' = (books st ! i) ''id''"
    by (simp add: assign_apply)
  have sent: "snd (put_book st pid None body) = Send 200 (Book (assign (books st ! i) body))"
    if "body ''id'' = None"
  proof -
    from that old have "matches_id pid (assign (books st ! i) body)"
      by (simp add: matches_id_def assign_apply)
    then have "find_index (matches_id pid) ((books st)[i := assign (books st ! i) body]) = Some i"
      by (rule find_index_update [OF assms])
    then show ?thesis
      using i by (simp add: put_book_found(1) [OF assms] lodash_find_def value_payload_def)
  qed
  from stored merged author sent show ?thesis
    by blast
qed

theorem put_book_shallow_merge_witness:
  "find_index (matches_id ''abcde'') (books db_one) = Some 0 \<and>
   books (fst (put_book db_one ''abcde'' None [''author'' \<mapsto> JString ''X''])) =
     [[''id'' \<mapsto> JString ''abcde'', ''title'' \<mapsto> JString ''Dune'', ''author'' \<mapsto> JString ''X'']] \<and>
   snd (put_book db_one ''abcde'' None [''author'' \<mapsto> JString ''X'']) =
     Send 200 (Book [''id'' \<mapsto> JString ''abcde'', ''title'' \<mapsto> JString ''Dune'',
                     ''author'' \<mapsto> JString ''X''])"
proof -
  have found: "find_index (matches_id ''abcde'') (books db_one) = Some 0"
    by (simp add: db_one_books matches_id_def)
  from put_book_shallow_merge [OF found, of None "[''author'' \<mapsto> JString ''X'']"] found
  show ?thesis by (simp add: db_one_books assign_def)
qed

section \<open>Creating a book\<close>

lemma new_book_apply:
  "new_book gid body k =
     (case body k of None \<Rightarrow> (if k = ''id'' then Some (JString gid) else None) | Some v \<Rightarrow> Some v)"
  by (simp add: new_book_def assign_apply split: option.split)

text \<open>
  C2, as the claim states it, at a concrete request: the store holds a book with id
  \<open>abcde\<close>, the body has no \<open>id\<close>, and \<^verbatim>\<open>nanoid(5)\<close> returns \<open>abcde\<close> again. The
  answer is 201, and two records of the collection now carry the new book's id.
\<close>

theorem post_book_unique_counterexample:
  "[''title'' \<mapsto> JString ''Emma''] ''id'' = None \<and>
   length ''abcde'' = idLength \<and>
   matches_id ''abcde'' (books db_one ! 0) \<and>
   snd (post_book db_one (Inr ''abcde'') None [''title'' \<mapsto> JString ''Emma'']) =
     Send 201 (Book [''id'' \<mapsto> JString ''abcde'', ''title'' \<mapsto> JString ''Emma'']) \<and>
   length (filter (matches_id ''abcde'')
     (books (fst (post_book db_one (Inr ''abcde'') None [''title'' \<mapsto> JString ''Emma''])))) = 2"
  by (simp add: db_one_books idLength_def post_book_generated new_book_def assign_def matches_id_def)

text \<open>
  C2, amended. For every \<^verbatim>\<open>POST /books\<close> whose body has no \<open>id\<close>, when
  \<^verbatim>\<open>nanoid(idLength)\<close> returns \<open>gid\<close> (a string of \<open>idLength\<close> characters) and the
  write succeeds: the answer is 201 with the created book, which is appended to the
  collection and written to the file; its \<open>id\<close> is \<open>gid\<close>, non-empty and 5
  characters long; every other property is the body's. The new book is the only
  record with that id exactly when no record of the collection had the id \<open>gid\<close>
  before: the handler does not check.
\<close>

theorem post_book_created:
  assumes "body ''id'' = None" and "length gid = idLength"
  shows "post_book st (Inr gid) None body =
           (st\<lparr>books := books st @ [new_book gid body],
               db_json := books st @ [new_book gid body]\<rparr>,
            Send 201 (Book (new_book gid body))) \<and>
         new_book gid body ''id'' = Some (JString gid) \<and>
         length gid = 5 \<and> gid \<noteq> [] \<and>
         (\<forall>k. k \<noteq> ''id'' \<longrightarrow> new_book gid body k = body k) \<and>
         ((\<forall>b\<in>set (books st). \<not> matches_id gid b) \<longleftrightarrow>
            filter (matches_id gid) (books st @ [new_book gid body]) = [new_book gid body])"
proof -
  have id: "new_book gid body ''id'' = Some (JString gid)"
    using assms(1) by (simp add: new_book_apply)
  have len: "length gid = 5 \<and> gid \<noteq> []"
    using assms(2) by (auto simp: idLength_def)
  have others: "\<forall>k. k \<noteq> ''id'' \<longrightarrow> new_book gid body k = body k"
    by (simp add: new_book_apply split: option.split)
  have "filter (matches_id gid) (books st @ [new_book gid body]) =
      filter (matches_id gid) (books st) @ [new_book gid body]"
    using id by (simp add: matches_id_def)
  then have fresh: "(\<forall>b\<in>set (books st). \<not> matches_id gid b) \<longleftrightarrow>
      filter (matches_id gid) (books st @ [new_book gid body]) = [new_book gid body]"
    by (simp add: filter_empty_conv)
  from id len others fresh show ?thesis
    by (simp add: post_book_generated(1))
qed

theorem post_book_created_witness:
  "[''title'' \<mapsto> JString ''Emma''] ''id'' = None \<and>
   length ''fghij'' = idLength \<and>
   snd (post_book db_one (Inr ''fghij'') None [''title'' \<mapsto> JString ''Emma'']) =
     Send 201 (Book [''id'' \<mapsto> JString ''fghij'', ''title'' \<mapsto> JString ''Emma'']) \<and>
   filter (matches_id ''fghij'')
     (books db_one @ [new_book ''fghij'' [''title'' \<mapsto> JString ''Emma'']]) =
     [new_book ''fghij'' [''title'' \<mapsto> JString ''Emma'']]"
proof -
  have no_id: "[''title'' \<mapsto> JString ''Emma''] ''id'' = None"
    by simp
  have len: "length ''fghij'' = idLength"
    by (simp add: idLength_def)
  have fresh: "\<forall>b\<in>set (books db_one). \<not> matches_id ''fghij'' b"
    by (simp add: db_one_books matches_id_def)
  from post_book_created [of "[''title'' \<mapsto> JString ''Emma'']" "''fghij''" db_one]
    fresh no_id len
  show ?thesis
    by (simp add: new_book_def assign_def)
qed

text \<open>
  C6. When a \<^verbatim>\<open>POST /books\<close> with body \<open>b\<close> has answered 201, \<^verbatim>\<open>GET /books\<close> on
  the resulting store answers with the prior list followed by exactly one new record,
  the created book; for a body without \<open>id\<close> that record is \<open>b\<close> with the generated
  id added.
\<close>

theorem post_then_get_books:
  assumes "post_book st gen wr body = (st', r)" and "status r = 201"
  shows "\<exists>gid. gen = Inr gid \<and> r = Send 201 (Book (new_book gid body)) \<and>
           snd (get_books st') = Send 200 (Books (books st @ [new_book gid body])) \<and>
           (body ''id'' = None \<longrightarrow> new_book gid body = body(''id'' \<mapsto> JString gid))"
proof (cases gen)
  case (Inl e)
  with assms show ?thesis
    by (auto simp: post_book_def)
next
  case (Inr gid)
  show ?thesis
  proof (cases wr)
    case (Some e)
    with Inr assms show ?thesis
      by (auto simp: post_book_generated(2))
  next
    case None
    have "new_book gid body = body(''id'' \<mapsto> JString gid)" if "body ''id'' = None"
      using that by (auto simp: new_book_apply fun_eq_iff split: option.split)
    with None Inr assms show ?thesis
      by (auto simp: post_book_generated(1) get_books_def)
  qed
qed

theorem post_then_get_books_witness:
  "status (snd (post_book db_one (Inr ''fghij'') None [''title'' \<mapsto> JString ''Emma''])) = 201 \<and>
   snd (get_books (fst (post_book db_one (Inr ''fghij'') None [''title'' \<mapsto> JString ''Emma'']))) =
     Send 200 (Books (books db_one @ [[''title'' \<mapsto> JString ''Emma'', ''id'' \<mapsto> JString ''fghij'']]))"
proof -
  let ?body = "[''title'' \<mapsto> JString ''Emma''] :: int object"
  have run: "post_book db_one (Inr ''fghij'') None ?body =
      (fst (post_book db_one (Inr ''fghij'') None ?body),
       snd (post_book db_one (Inr ''fghij'') None ?body))"
    by simp
  have ok: "status (snd (post_book db_one (Inr ''fghij'') None ?body)) = 201"
    by (simp add: post_book_generated(1))
  have no_id: "?body ''id'' = None"
    by simp
  from post_then_get_books [OF run ok] no_id ok show ?thesis
    by auto
qed

text \<open>
  C9. For every \<^verbatim>\<open>POST /books\<close> whose body has an \<open>id\<close> property, the created
  record's \<open>id\<close> is the body's value, not the generated one: the created record is
  the body itself. It is appended to the collection, and sent back with 201 when the
  write succeeds. The witness creates a second book with the empty string as id: the
  stored id is neither 5 characters long, nor non-empty, nor fresh.
\<close>

theorem post_book_client_id:
  assumes "body ''id'' = Some v"
  shows "new_book gid body ''id'' = Some v \<and>
         new_book gid body = body \<and>
         books (fst (post_book st (Inr gid) wr body)) = books st @ [new_book gid body] \<and>
         snd (post_book st (Inr gid) None body) = Send 201 (Book (new_book gid body))"
proof -
  have id: "new_book gid body ''id'' = Some v"
    using assms by (simp add: new_book_apply)
  have same: "new_book gid body = body"
    using assms by (auto simp: new_book_apply fun_eq_iff split: option.split)
  have pushed: "books (fst (post_book st (Inr gid) wr body)) = books st @ [new_book gid body]"
    by (cases wr) (simp_all add: post_book_generated)
  from id same pushed show ?thesis
    by (simp add: post_book_generated(1))
qed

theorem post_book_client_id_witness:
  "[''id'' \<mapsto> JString ''''] ''id'' = Some (JString '''') \<and>
   books db_blank = [[''id'' \<mapsto> JString '''']] \<and>
   snd (post_book db_blank (Inr ''fghij'') None [''id'' \<mapsto> JString '''']) =
     Send 201 (Book [''id'' \<mapsto> JString '''']) \<and>
   books (fst (post_book db_blank (Inr ''fghij'') None [''id'' \<mapsto> JString ''''])) =
     [[''id'' \<mapsto> JString ''''], [''id'' \<mapsto> JString '''']]"
proof -
  let ?body = "[''id'' \<mapsto> JString ''''] :: int object"
  have has_id: "?body ''id'' = Some (JString '''')"
    by simp
  from post_book_client_id [where body = ?body and gid = "''fghij''" and st = db_blank
      and wr = None, OF has_id] has_id
  show ?thesis
    by (simp add: db_blank_books)
qed

section \<open>Deleting a book\<close>

text \<open>
  C5, as the claim states it, at a concrete request: the store holds two books with
  id \<open>a\<close> (both created by \<^verbatim>\<open>POST\<close> with that id in the body), and
  \<^verbatim>\<open>DELETE /books/a\<close> answers 200 after a remove that took out 2 records; the body
  of the answer is the text \<open>OK\<close>, not an empty one.
\<close>

theorem delete_book_count_counterexample:
  "snd (delete_book db_dup ''a'' None) = SendStatus 200 \<and>
   length (fst (lodash_remove (matches_id ''a'') (books db_dup))) = 2 \<and>
   content (snd (delete_book db_dup ''a'' None)) = Text ''OK''"
  by (simp add: db_dup_books delete_book_written lodash_remove_filter matches_id_def
      statuses_message_def)

text \<open>
  C5, amended. For every id, a \<^verbatim>\<open>DELETE /books/{id}\<close> whose write succeeds answers
  404 exactly when no record has that id, and then the collection is as before (the
  file is rewritten with it); otherwise it answers 200. Both answers are sent with
  \<^verbatim>\<open>res.sendStatus\<close>, so their body is the status text, \<open>Not Found\<close> and \<open>OK\<close>.
  The remove operation returns as many records as carry the id: at most 1 when the
  ids of the collection are pairwise distinct.
\<close>

theorem delete_book_not_found_iff:
  "(status (snd (delete_book st pid None)) = 404 \<longleftrightarrow>
      \<not> (\<exists>b\<in>set (books st). matches_id pid b)) \<and>
   (status (snd (delete_book st pid None)) = 404 \<longrightarrow>
      fst (delete_book st pid None) = st\<lparr>db_json := books st\<rparr> \<and>
      content (snd (delete_book st pid None)) = Text ''Not Found'') \<and>
   (status (snd (delete_book st pid None)) \<noteq> 404 \<longrightarrow>
      snd (delete_book st pid None) = SendStatus 200 \<and>
      content (snd (delete_book st pid None)) = Text ''OK'') \<and>
   length (fst (lodash_remove (matches_id pid) (books st))) =
     length (filter (matches_id pid) (books st)) \<and>
   (distinct (map (\<lambda>b. b ''id'') (books st)) \<longrightarrow>
      length (fst (lodash_remove (matches_id pid) (books st))) \<le> 1)"
proof -
  have iff: "status (snd (delete_book st pid None)) = 404 \<longleftrightarrow>
      \<not> (\<exists>b\<in>set (books st). matches_id pid b)"
    by (simp add: delete_book_written(1) filter_empty_conv)
  have same: "fst (delete_book st pid None) = st\<lparr>db_json := books st\<rparr>"
    if "status (snd (delete_book st pid None)) = 404"
  proof -
    from that iff have "\<forall>b\<in>set (books st). \<not> matches_id pid b"
      by simp
    then have "filter (\<lambda>b. \<not> matches_id pid b) (books st) = books st"
      by simp
    then show ?thesis
      by (simp add: delete_book_written(1))
  qed
  have missing: "status (snd (delete_book st pid None)) = 404 \<longrightarrow>
      content (snd (delete_book st pid None)) = Text ''Not Found''"
    by (simp add: delete_book_written(1) statuses_message_def)
  have ok: "status (snd (delete_book st pid None)) \<noteq> 404 \<longrightarrow>
      snd (delete_book st pid None) = SendStatus 200 \<and>
      content (snd (delete_book st pid None)) = Text ''OK''"
    by (simp add: delete_book_written(1) statuses_message_def)
  have count: "length (fst (lodash_remove (matches_id pid) (books st))) =
      length (filter (matches_id pid) (books st))"
    by (simp add: lodash_remove_filter)
  have pred: "matches_id pid = (\<lambda>b. b ''id'' = Some (JString pid))"
    by (simp add: fun_eq_iff matches_id_def)
  have one: "distinct (map (\<lambda>b. b ''id'') (books st)) \<longrightarrow>
      length (fst (lodash_remove (matches_id pid) (books st))) \<le> 1"
    using filter_distinct_key [of "\<lambda>b. b ''id''" "books st" "Some (JString pid)"]
    by (simp add: lodash_remove_filter pred)
  from iff same missing ok count one show ?thesis
    by blast
qed

theorem delete_book_not_found_iff_witness:
  "distinct (map (\<lambda>b. b ''id'') (books db_one)) \<and>
   status (snd (delete_book db_one ''abcde'' None)) \<noteq> 404 \<and>
   snd (delete_book db_one ''abcde'' None) = SendStatus 200 \<and>
   content (snd (delete_book db_one ''abcde'' None)) = Text ''OK'' \<and>
   length (fst (lodash_remove (matches_id ''abcde'') (books db_one))) = 1 \<and>
   status (snd (delete_book db_one ''zzzzz'' None)) = 404 \<and>
   content (snd (delete_book db_one ''zzzzz'' None)) = Text ''Not Found'' \<and>
   fst (delete_book db_one ''zzzzz'' None) = db_one\<lparr>db_json := books db_one\<rparr>"
proof -
  have uniq: "distinct (map (\<lambda>b. b ''id'') (books db_one))"
    by (simp add: db_one_books)
  have hit: "\<exists>b\<in>set (books db_one). matches_id ''abcde'' b"
    by (simp add: db_one_books matches_id_def)
  have miss: "\<not> (\<exists>b\<in>set (books db_one). matches_id ''zzzzz'' b)"
    by (simp add: db_one_books matches_id_def)
  have n: "length (filter (matches_id ''abcde'') (books db_one)) = 1"
    by (simp add: db_one_books matches_id_def)
  from delete_book_not_found_iff [of db_one "''abcde''"]
    delete_book_not_found_iff [of db_one "''zzzzz''"] uniq hit miss n
  show ?thesis by simp
qed

text \<open>
  C10. \<^verbatim>\<open>DELETE /books/{id}\<close> removes every record whose id is the path id in one
  call: the removed records are all the matching ones, the collection keeps exactly
  the others, and when at least one matched and the write succeeds the answer is one
  200. The witness removes 2 records at once from a store with a duplicated id.
\<close>

theorem delete_book_removes_all:
  "fst (lodash_remove (matches_id pid) (books st)) = filter (matches_id pid) (books st) \<and>
   books (fst (delete_book st pid wr)) = filter (\<lambda>b. \<not> matches_id pid b) (books st) \<and>
   ((\<exists>b\<in>set (books st). matches_id pid b) \<longrightarrow>
      snd (delete_book st pid None) = SendStatus 200)"
proof -
  have kept: "books (fst (delete_book st pid wr)) = filter (\<lambda>b. \<not> matches_id pid b) (books st)"
    by (cases wr) (simp_all add: delete_book_written)
  have "snd (delete_book st pid None) = SendStatus 200"
    if "\<exists>b\<in>set (books st). matches_id pid b"
    using that by (simp add: delete_book_written(1) filter_empty_conv)
  with kept show ?thesis
    by (simp add: lodash_remove_filter)
qed

theorem delete_book_removes_all_witness:
  "(\<exists>b\<in>set (books db_dup). matches_id ''a'' b) \<and>
   length (fst (lodash_remove (matches_id ''a'') (books db_dup))) = 2 \<and>
   books (fst (delete_book db_dup ''a'' None)) = [] \<and>
   snd (delete_book db_dup ''a'' None) = SendStatus 200"
proof -
  have hit: "\<exists>b\<in>set (books db_dup). matches_id ''a'' b"
    by (simp add: db_dup_books matches_id_def)
  from delete_book_removes_all [of "''a''" db_dup None] hit show ?thesis
    by (simp add: db_dup_books matches_id_def)
qed

text \<open>
  C7. After a \<^verbatim>\<open>DELETE /books/{id}\<close> that answered 200, a \<^verbatim>\<open>GET /books/{id}\<close>
  on the resulting store answers 404: no record with that id is left.
\<close>

theorem delete_then_get_book:
  assumes "delete_book st pid wr = (st', r)" and "status r = 200"
  shows "snd (get_book st' pid) = SendStatus 404 \<and> (\<forall>b\<in>set (books st'). \<not> matches_id pid b)"
proof -
  have "books st' = filter (\<lambda>b. \<not> matches_id pid b) (books st)"
    using assms(1) by (cases wr) (auto simp: delete_book_written)
  then have none: "\<forall>b\<in>set (books st'). \<not> matches_id pid b"
    by simp
  then have "lodash_find (matches_id pid) (books st') = None"
    by (simp add: lodash_find_None)
  with none show ?thesis
    by (simp add: get_book_def)
qed

theorem delete_then_get_book_witness:
  "status (snd (delete_book db_one ''abcde'' None)) = 200 \<and>
   snd (get_book (fst (delete_book db_one ''abcde'' None)) ''abcde'') = SendStatus 404"
proof -
  have run: "delete_book db_one ''abcde'' None =
      (fst (delete_book db_one ''abcde'' None), snd (delete_book db_one ''abcde'' None))"
    by simp
  have ok: "status (snd (delete_book db_one ''abcde'' None)) = 200"
    by (simp add: delete_book_written db_one_books matches_id_def)
  from delete_then_get_book [OF run ok] ok show ?thesis
    by simp
qed

section \<open>Internal errors\<close>

text \<open>
  C8, as the claim states it, at concrete requests. A request body that is not JSON
  is an internal error of the spec's list ("body parsing"), and \<^verbatim>\<open>express.json()\<close>
  fails on it before the router runs: the \<^verbatim>\<open>POST\<close> and the \<^verbatim>\<open>PUT\<close> are answered
  400, not 500. And when \<^verbatim>\<open>nanoid\<close> throws an \<^verbatim>\<open>Error\<close> that has only its message,
  the 500 goes out with the body \<^verbatim>\<open>{}\<close>: the message is not in it.
\<close>

theorem post_put_internal_error_counterexample:
  "http_status parse_failed = Some 400 \<and>
   status (snd (app_post db_one (Inl parse_failed) (Inr ''fghij'') None)) = 400 \<and>
   status (snd (app_put db_one ''abcde'' (Inl parse_failed) None)) = 400 \<and>
   message plain_error = ''out of entropy'' \<and>
   snd (post_book db_one (Inl plain_error) None [''title'' \<mapsto> JString ''Emma'']) =
     Send 500 (Failure plain_error) \<and>
   content (snd (post_book db_one (Inl plain_error) None [''title'' \<mapsto> JString ''Emma''])) =
     Json (JObject Map.empty)"
  by (simp add: parse_failed_def plain_error_def app_post_def app_put_def express_json_def
      post_book_def)

text \<open>
  C8, amended. When \<^verbatim>\<open>nanoid\<close> or the write throws \<open>e\<close> inside the handler of
  \<^verbatim>\<open>POST /books\<close>, or the write throws \<open>e\<close> inside the handler of
  \<^verbatim>\<open>PUT /books/{id}\<close> for an existing record, the answer is 500 and its body is the
  JSON object of the own enumerable properties of \<open>e\<close>. The file is what it was
  before the request, while the collection in memory already holds the pushed or
  merged record (nothing is changed when \<^verbatim>\<open>nanoid\<close> throws). A body that fails to
  parse is not such an error: no handler runs, the store is untouched, and Express
  answers with the status of the parser's error, 400. A body that parses reaches
  the handler as it is.
\<close>

theorem post_put_internal_error:
  "post_book st (Inl e) wr body = (st, Send 500 (Failure e)) \<and>
   post_book st (Inr gid) (Some e) body =
     (st\<lparr>books := books st @ [new_book gid body]\<rparr>, Send 500 (Failure e)) \<and>
   db_json (fst (post_book st (Inr gid) (Some e) body)) = db_json st \<and>
   (find_index (matches_id pid) (books st) = Some i \<longrightarrow>
      put_book st pid (Some e) body =
        (st\<lparr>books := (books st)[i := assign (books st ! i) body]\<rparr>, Send 500 (Failure e)) \<and>
      db_json (fst (put_book st pid (Some e) body)) = db_json st) \<and>
   content (Send 500 (Failure e)) = Json (JObject (own_props e)) \<and>
   (http_status e = Some 400 \<longrightarrow>
      app_post st (Inl e) gen wr = (st, Uncaught e) \<and>
      app_put st pid (Inl e) wr = (st, Uncaught e) \<and>
      status (Uncaught e) = 400) \<and>
   app_post st (Inr body) gen wr = post_book st gen wr body \<and>
   app_put st pid (Inr body) wr = put_book st pid wr body"
proof -
  have thrown: "post_book st (Inl e) wr body = (st, Send 500 (Failure e))"
    by (simp add: post_book_def)
  have post: "post_book st (Inr gid) (Some e) body =
      (st\<lparr>books := books st @ [new_book gid body]\<rparr>, Send 500 (Failure e))"
    by (rule post_book_generated(2))
  have put: "put_book st pid (Some e) body =
        (st\<lparr>books := (books st)[i := assign (books st ! i) body]\<rparr>, Send 500 (Failure e)) \<and>
      db_json (fst (put_book st pid (Some e) body)) = db_json st"
    if "find_index (matches_id pid) (books st) = Some i"
    using that by (simp add: put_book_found(2))
  have parse: "app_post st (Inl e) gen wr = (st, Uncaught e) \<and>
      app_put st pid (Inl e) wr = (st, Uncaught e) \<and>
      status (Uncaught e) = 400"
    if "http_status e = Some 400"
    using that by (simp add: app_post_def app_put_def express_json_def)
  have passed: "app_post st (Inr body) gen wr = post_book st gen wr body \<and>
      app_put st pid (Inr body) wr = put_book st pid wr body"
    by (simp add: app_post_def app_put_def express_json_def)
  from thrown post put parse passed show ?thesis
    by simp
qed

theorem post_put_internal_error_witness:
  "find_index (matches_id ''abcde'') (books db_one) = Some 0 \<and>
   snd (put_book db_one ''abcde'' (Some eacces) [''title'' \<mapsto> JString ''Emma'']) =
     Send 500 (Failure eacces) \<and>
   db_json (fst (put_book db_one ''abcde'' (Some eacces) [''title'' \<mapsto> JString ''Emma''])) =
     db_json db_one \<and>
   (books (fst (put_book db_one ''abcde'' (Some eacces) [''title'' \<mapsto> JString ''Emma''])) ! 0)
     ''title'' = Some (JString ''Emma'') \<and>
   content (Send 500 (Failure eacces)) =
     Json (JObject [''errno'' \<mapsto> JNumber (- 13), ''code'' \<mapsto> JString ''EACCES'',
                    ''syscall'' \<mapsto> JString ''open'', ''path'' \<mapsto> JString ''db.json'']) \<and>
   http_status parse_failed = Some 400 \<and>
   app_post db_one (Inl parse_failed) (Inr ''fghij'') None = (db_one, Uncaught parse_failed) \<and>
   status (Uncaught parse_failed) = 400"
proof -
  have found: "find_index (matches_id ''abcde'') (books db_one) = Some 0"
    by (simp add: db_one_books matches_id_def)
  have bad: "http_status parse_failed = Some 400"
    by (simp add: parse_failed_def)
  from post_put_internal_error [where st = db_one and e = eacces and pid = "''abcde''" and i = 0
      and body = "[''title'' \<mapsto> JString ''Emma'']"]
    post_put_internal_error [where st = db_one and e = parse_failed and gen = "Inr ''fghij''"
      and wr = None]
    found bad
  show ?thesis
    by (simp add: db_one_books assign_def eacces_def)
qed

end
